theory Spec2Isabelle
  imports Main
begin

section \<open>JavaScript values\<close>

text \<open>
  A shallow embedding of \<^verbatim>\<open>src/useController.ts\<close>. A JavaScript expression that
  may evaluate to \<^verbatim>\<open>undefined\<close> has an option type here, and \<open>None\<close> is
  \<^verbatim>\<open>undefined\<close>; every other value is a \<open>jsval\<close> or a typed object.
\<close>

type_synonym path = string

datatype jsval =
    JNull
  | JBool bool
  | JNum int
  | JStr string
  | JObj "(string \<times> jsval) list"

text \<open>Truthiness, as \<^verbatim>\<open>!!x\<close>, \<^verbatim>\<open>x && y\<close>, \<^verbatim>\<open>x || y\<close> and \<^verbatim>\<open>x ? a : b\<close> test it.\<close>

fun truthy :: "jsval option \<Rightarrow> bool" where
  "truthy None = False"
| "truthy (Some JNull) = False"
| "truthy (Some (JBool b)) = b"
| "truthy (Some (JNum n)) = (n \<noteq> 0)"
| "truthy (Some (JStr s)) = (s \<noteq> [])"
| "truthy (Some (JObj kvs)) = True"


text \<open>\<^verbatim>\<open>a || b\<close>: the left operand when it is truthy, else the right one.\<close>

definition js_or :: "jsval option \<Rightarrow> jsval option \<Rightarrow> jsval option" where
  "js_or a b = (if truthy a then a else b)"

text \<open>
  Modelled from the spec: the helpers \<^verbatim>\<open>./utils/isBoolean\<close>,
  \<^verbatim>\<open>./utils/isUndefined\<close>, \<^verbatim>\<open>./utils/get\<close>, \<^verbatim>\<open>./utils/set\<close> and
  \<^verbatim>\<open>./utils/cloneObject\<close> are imported by the hook and are not part of the sources.
  The spec (4.1, PathAccessor): \<^verbatim>\<open>get(tree, path, fallback)\<close> returns the value at
  \<^verbatim>\<open>path\<close>, or \<^verbatim>\<open>fallback\<close> if any segment is absent, and never throws;
  \<^verbatim>\<open>set(tree, path, value)\<close> writes the value at \<^verbatim>\<open>path\<close>. A tree is
  represented by what it holds at each path (a map from paths), and a slot holding
  \<^verbatim>\<open>undefined\<close> is an absent slot (line 228 of the hook tests absence with
  \<^verbatim>\<open>isUndefined(get(...))\<close>). \<^verbatim>\<open>disabled\<close> is "explicitly boolean" when it is
  \<^verbatim>\<open>true\<close> or \<^verbatim>\<open>false\<close>. A deep clone of an immutable value is the value.
\<close>

definition isBoolean :: "jsval option \<Rightarrow> bool" where
  "isBoolean x = (case x of Some (JBool _) \<Rightarrow> True | _ \<Rightarrow> False)"

definition isUndefined :: "'a option \<Rightarrow> bool" where
  "isUndefined x = (case x of None \<Rightarrow> True | Some _ \<Rightarrow> False)"

definition get :: "(path \<rightharpoonup> 'a) \<Rightarrow> path \<Rightarrow> 'a option \<Rightarrow> 'a option" where
  "get tree p fallback = (case tree p of None \<Rightarrow> fallback | Some v \<Rightarrow> Some v)"

definition set_js :: "(path \<rightharpoonup> 'a) \<Rightarrow> path \<Rightarrow> 'a option \<Rightarrow> (path \<rightharpoonup> 'a)" where
  "set_js tree p v = tree(p := v)"

definition cloneObject :: "jsval option \<Rightarrow> jsval option" where
  "cloneObject v = v"

section \<open>The data the hook works on\<close>

subsection \<open>Elements and capability handles\<close>

text \<open>
  A rendered element, as the ref callback receives it: \<^verbatim>\<open>focus\<close> and
  \<^verbatim>\<open>select\<close> are optional methods of it (lines 159-160 test them before the call).
  \<open>Handle e\<close> is the object \<^verbatim>\<open>{focus, select, setCustomValidity, reportValidity}\<close>
  of lines 158-164, whose four functions close over the element \<open>e\<close>.
\<close>

record element =
  elm_id :: nat
  elm_has_focus :: bool
  elm_has_select :: bool

datatype handle = Handle element

datatype dom_call =
    DomFocus nat
  | DomSelect nat
  | DomSetCustomValidity nat string
  | DomReportValidity nat

fun focus :: "handle \<Rightarrow> dom_call list" where
  "focus (Handle e) = (if elm_has_focus e then [DomFocus (elm_id e)] else [])"

fun select :: "handle \<Rightarrow> dom_call list" where
  "select (Handle e) = (if elm_has_select e then [DomSelect (elm_id e)] else [])"

fun setCustomValidity :: "handle \<Rightarrow> string \<Rightarrow> dom_call list" where
  "setCustomValidity (Handle e) message = [DomSetCustomValidity (elm_id e) message]"

fun reportValidity :: "handle \<Rightarrow> dom_call list" where
  "reportValidity (Handle e) = [DomReportValidity (elm_id e)]"

subsection \<open>Field nodes\<close>

text \<open>
  \<^verbatim>\<open>control._fields\<close> holds, at a path, nothing, a field (an object with the
  property \<^verbatim>\<open>_f\<close>) or an object without \<^verbatim>\<open>_f\<close> (a container of the fields below
  the path): \<^verbatim>\<open>updateMounted\<close> tests \<^verbatim>\<open>field && field._f\<close> for that reason.
  \<open>fld_f\<close> is the property \<^verbatim>\<open>_f\<close>, \<open>None\<close> when the object has none.
\<close>

type_synonym rules = "(string \<times> jsval) list"

record field_f =
  f_name :: path
  f_mount :: "bool option"
  f_ref :: "handle option"
  f_disabled :: "bool option"
  f_rules :: rules

record field_node =
  fld_f :: "field_f option"

subsection \<open>Form state\<close>

text \<open>
  \<^verbatim>\<open>formState.errors\<close> is a tree like \<^verbatim>\<open>control._fields\<close>: at a path it holds
  nothing, the error of the field at the path, or the object that holds the errors of
  the paths below it (with the key and the error of each). \<^verbatim>\<open>get\<close> returns that
  object at such a path, and an object is truthy.
\<close>

record field_error =
  err_type :: string
  err_message :: string

datatype errors_entry =
    FieldError field_error
  | ErrorsBelow "(string \<times> field_error) list"


record form_state =
  fs_errors :: "path \<rightharpoonup> errors_entry"
  fs_dirtyFields :: "path \<rightharpoonup> jsval"
  fs_touchedFields :: "path \<rightharpoonup> jsval"
  fs_validatingFields :: "path \<rightharpoonup> jsval"
  fs_disabled :: "jsval option"

subsection \<open>The control object\<close>

text \<open>
  The properties of \<^verbatim>\<open>control\<close> the hook reads and writes:
  \<^verbatim>\<open>_names.array\<close>, \<^verbatim>\<open>_fields\<close> (here \<open>field_refs\<close>), \<^verbatim>\<open>_formValues\<close>, \<^verbatim>\<open>_defaultValues\<close>,
  \<^verbatim>\<open>_options.shouldUnregister\<close>, \<^verbatim>\<open>_options.defaultValues\<close>,
  \<^verbatim>\<open>_state.action\<close>, and the form state the control owns.
\<close>

record control =
  names_array :: "path set"
  field_refs :: "path \<rightharpoonup> field_node"
  formValues :: "path \<rightharpoonup> jsval"
  defaultValues :: "path \<rightharpoonup> jsval"
  options_shouldUnregister :: "jsval option"
  options_defaultValues :: "path \<rightharpoonup> jsval"
  state_action :: bool
  formState :: form_state

text \<open>
  The options object handed to \<^verbatim>\<open>control.register\<close>: the rules, the key
  \<^verbatim>\<open>value\<close> (a key holding \<^verbatim>\<open>undefined\<close> reads like a missing one) and the key
  \<^verbatim>\<open>disabled\<close>, \<open>None\<close> when the object has no such key.
\<close>

record register_options =
  ro_rules :: rules
  ro_value :: "jsval option"
  ro_disabled :: "jsval option"

subsection \<open>The methods of the control and the hooks the sources do not contain\<close>

text \<open>
  \<^verbatim>\<open>control.register\<close>, \<^verbatim>\<open>control.unregister\<close>,
  \<^verbatim>\<open>control._setDisabledField\<close>, \<^verbatim>\<open>isNameInFieldArray\<close> and \<^verbatim>\<open>useWatch\<close>
  are called by the hook and defined elsewhere. The hook is modelled for any
  implementation of them: they are the fields of a record the model takes as a
  parameter. A method acts on the state of the control it is called on.
\<close>

record methods =
  register :: "control \<Rightarrow> path \<Rightarrow> register_options \<Rightarrow> control"
  unregister :: "control \<Rightarrow> path \<Rightarrow> control"
  setDisabledField :: "control \<Rightarrow> path \<Rightarrow> jsval option \<Rightarrow> control"
  isNameInFieldArray :: "path set \<Rightarrow> path \<Rightarrow> bool"
  useWatch :: "control \<Rightarrow> path \<Rightarrow> jsval option \<Rightarrow> jsval option"

text \<open>
  The controls are objects compared by identity (\<^verbatim>\<open>previousControl !== control\<close>):
  a control is named by its address, and the world maps each address to the state of
  the control there. The world also records every call of a method of a control, in
  order: that is how "the hook calls \<^verbatim>\<open>unregister\<close>" is observed.
\<close>

type_synonym cid = nat

datatype call =
    CRegister path register_options
  | CUnregister path
  | CSetDisabledField path "jsval option"

record world =
  controls :: "cid \<Rightarrow> control"
  calls :: "(cid \<times> call) list"

definition call_register :: "methods \<Rightarrow> world \<Rightarrow> cid \<Rightarrow> path \<Rightarrow> register_options \<Rightarrow> world" where
  "call_register M w c n opts =
     w\<lparr>controls := (controls w)(c := register M (controls w c) n opts),
       calls := calls w @ [(c, CRegister n opts)]\<rparr>"

definition call_unregister :: "methods \<Rightarrow> world \<Rightarrow> cid \<Rightarrow> path \<Rightarrow> world" where
  "call_unregister M w c n =
     w\<lparr>controls := (controls w)(c := unregister M (controls w c) n),
       calls := calls w @ [(c, CUnregister n)]\<rparr>"

definition call_setDisabledField :: "methods \<Rightarrow> world \<Rightarrow> cid \<Rightarrow> path \<Rightarrow> jsval option \<Rightarrow> world" where
  "call_setDisabledField M w c n d =
     w\<lparr>controls := (controls w)(c := setDisabledField M (controls w c) n d),
       calls := calls w @ [(c, CSetDisabledField n d)]\<rparr>"

section \<open>The hook\<close>

text \<open>The props of lines 57-63, with \<^verbatim>\<open>props.rules\<close>; \<open>p_control\<close> is the control in use.\<close>

record props =
  p_name :: path
  p_disabled :: "jsval option"
  p_control :: cid
  p_shouldUnregister :: "jsval option"
  p_defaultValue :: "jsval option"
  p_rules :: rules

text \<open>Line 64.\<close>

definition isArrayField :: "methods \<Rightarrow> world \<Rightarrow> props \<Rightarrow> bool" where
  "isArrayField M w p =
     isNameInFieldArray M (names_array (controls w (p_control p))) (p_name p)"

text \<open>Lines 73-77: the \<^verbatim>\<open>defaultValue\<close> handed to \<^verbatim>\<open>useWatch\<close>.\<close>

definition watchDefaultValue :: "control \<Rightarrow> path \<Rightarrow> jsval option \<Rightarrow> jsval option" where
  "watchDefaultValue c n defaultValue =
     get (formValues c) n (get (defaultValues c) n defaultValue)"

text \<open>Lines 90-94 and lines 205-210: the options of the two \<^verbatim>\<open>register\<close> calls.\<close>

definition renderRegisterOptions :: "props \<Rightarrow> jsval option \<Rightarrow> register_options" where
  "renderRegisterOptions p v =
     \<lparr>ro_rules = p_rules p, ro_value = v,
      ro_disabled = (if isBoolean (p_disabled p) then p_disabled p else None)\<rparr>"

definition effectRegisterOptions :: "props \<Rightarrow> register_options" where
  "effectRegisterOptions p =
     \<lparr>ro_rules = p_rules p, ro_value = None,
      ro_disabled = (if isBoolean (p_disabled p) then p_disabled p else None)\<rparr>"

text \<open>\<^verbatim>\<open>control.register(name)\<close> of line 233: no options.\<close>

definition noRegisterOptions :: register_options where
  "noRegisterOptions = \<lparr>ro_rules = [], ro_value = None, ro_disabled = None\<rparr>"

text \<open>
  Lines 70-95, the part of a render that acts on the control: the watched value and
  the \<^verbatim>\<open>register\<close> call whose result initialises \<^verbatim>\<open>_registerProps\<close> (the call
  is an argument of \<^verbatim>\<open>useRef\<close>, so it is made at every render).
\<close>

definition render_value :: "methods \<Rightarrow> world \<Rightarrow> props \<Rightarrow> jsval option" where
  "render_value M w p =
     (let c = controls w (p_control p)
      in useWatch M c (p_name p) (watchDefaultValue c (p_name p) (p_defaultValue p)))"

definition render_register :: "methods \<Rightarrow> world \<Rightarrow> props \<Rightarrow> world" where
  "render_register M w p =
     call_register M w (p_control p) (p_name p)
       (renderRegisterOptions p (render_value M w p))"

subsection \<open>The refs of the hook\<close>

text \<open>
  \<^verbatim>\<open>_previousNameRef\<close> (line 67, initially \<^verbatim>\<open>undefined\<close>),
  \<^verbatim>\<open>_previousControlRef\<close> (line 68, initially the control of the first render) and
  \<^verbatim>\<open>_props\<close> (lines 87 and 97, the props of the latest render). The result of
  \<^verbatim>\<open>register\<close> kept in \<^verbatim>\<open>_registerProps\<close> is used by \<^verbatim>\<open>onChange\<close> and
  \<^verbatim>\<open>onBlur\<close> only, which are not modelled.
\<close>

record refs =
  previousNameRef :: "path option"
  previousControlRef :: cid
  propsRef :: props

definition initial_refs :: "props \<Rightarrow> refs" where
  "initial_refs p = \<lparr>previousNameRef = None, previousControlRef = p_control p, propsRef = p\<rparr>"

definition render_refs :: "refs \<Rightarrow> props \<Rightarrow> refs" where
  "render_refs r p = r\<lparr>propsRef := p\<rparr>"

subsection \<open>fieldState, lines 99-127\<close>












subsection \<open>The ref callback, lines 153-168\<close>

text \<open>
  \<^verbatim>\<open>elm\<close> is an element or \<^verbatim>\<open>null\<close> (\<open>None\<close>). The assignment
  \<^verbatim>\<open>field._f.ref = ...\<close> is guarded by \<^verbatim>\<open>field && elm\<close> only: when \<^verbatim>\<open>field\<close>
  is an object without \<^verbatim>\<open>_f\<close>, it assigns to a property of \<^verbatim>\<open>undefined\<close>, which
  throws a TypeError.
\<close>

datatype js_error = TypeError

definition ref :: "control \<Rightarrow> path \<Rightarrow> element option \<Rightarrow> js_error + control" where
  "ref c n elm =
     (case get (field_refs c) n None of
        None \<Rightarrow> Inr c
      | Some field \<Rightarrow>
          (case elm of
             None \<Rightarrow> Inr c
           | Some e \<Rightarrow>
               (case fld_f field of
                  None \<Rightarrow> Inl TypeError
                | Some ff \<Rightarrow>
                    Inr (c\<lparr>field_refs := (field_refs c)
                           (n \<mapsto> field\<lparr>fld_f := Some (ff\<lparr>f_ref := Some (Handle e)\<rparr>)\<rparr>)\<rparr>))))"

subsection \<open>The field object, lines 170-183\<close>

text \<open>
  \<open>fp_disabled\<close> is \<open>None\<close> when the object has no key \<^verbatim>\<open>disabled\<close>, and
  \<open>Some v\<close> when it has the key with the value \<open>v\<close>. The functions
  \<^verbatim>\<open>onChange\<close>, \<^verbatim>\<open>onBlur\<close> and \<^verbatim>\<open>ref\<close> of the object are not part of the record.
\<close>

record field_object =
  fp_name :: path
  fp_value :: "jsval option"
  fp_disabled :: "jsval option option"

definition field_obj :: "props \<Rightarrow> form_state \<Rightarrow> jsval option \<Rightarrow> field_object" where
  "field_obj p fs v =
     \<lparr>fp_name = p_name p, fp_value = v,
      fp_disabled =
        (if isBoolean (p_disabled p) \<or> truthy (fs_disabled fs)
         then Some (js_or (fs_disabled fs) (p_disabled p))
         else None)\<rparr>"

subsection \<open>The registration effect, lines 185-247\<close>

text \<open>Lines 213-219.\<close>

definition updateMounted :: "control \<Rightarrow> path \<Rightarrow> bool \<Rightarrow> control" where
  "updateMounted c n v =
     (case get (field_refs c) n None of
        None \<Rightarrow> c
      | Some field \<Rightarrow>
          (case fld_f field of
             None \<Rightarrow> c
           | Some ff \<Rightarrow>
               c\<lparr>field_refs := (field_refs c)
                    (n \<mapsto> field\<lparr>fld_f := Some (ff\<lparr>f_mount := Some v\<rparr>)\<rparr>)\<rparr>))"

definition call_updateMounted :: "world \<Rightarrow> cid \<Rightarrow> path \<Rightarrow> bool \<Rightarrow> world" where
  "call_updateMounted w c n v =
     w\<lparr>controls := (controls w)(c := updateMounted (controls w c) n v)\<rparr>"

text \<open>Lines 223-231, with \<open>flag\<close> the value of \<^verbatim>\<open>_shouldUnregisterField\<close>.\<close>

definition seedDefaults :: "jsval option \<Rightarrow> control \<Rightarrow> path \<Rightarrow> jsval option \<Rightarrow> control" where
  "seedDefaults flag c n defaultValue =
     (if truthy flag
      then
        (let v = cloneObject (get (options_defaultValues c) n defaultValue);
             c1 = c\<lparr>defaultValues := set_js (defaultValues c) n v\<rparr>
         in if isUndefined (get (formValues c1) n None)
            then c1\<lparr>formValues := set_js (formValues c1) n v\<rparr>
            else c1)
      else c)"

definition call_seedDefaults :: "jsval option \<Rightarrow> world \<Rightarrow> cid \<Rightarrow> path \<Rightarrow> jsval option \<Rightarrow> world" where
  "call_seedDefaults flag w c n defaultValue =
     w\<lparr>controls := (controls w)(c := seedDefaults flag (controls w c) n defaultValue)\<rparr>"

text \<open>
  What the cleanup function of lines 238-246 closes over: \<^verbatim>\<open>name\<close>,
  \<^verbatim>\<open>control\<close>, \<^verbatim>\<open>isArrayField\<close> and \<^verbatim>\<open>_shouldUnregisterField\<close>.
\<close>

record cleanup_env =
  cl_name :: path
  cl_control :: cid
  cl_isArrayField :: bool
  cl_shouldUnregisterField :: "jsval option"

text \<open>
  The body of the effect, lines 186-236. \<open>isArr\<close> is \<^verbatim>\<open>isArrayField\<close> of the
  render the effect belongs to, \<open>p\<close> the props of that render (\<^verbatim>\<open>name\<close>,
  \<^verbatim>\<open>control\<close>, \<^verbatim>\<open>shouldUnregister\<close>) and \<open>propsRef r\<close> is
  \<^verbatim>\<open>_props.current\<close>. A control object is truthy, so \<^verbatim>\<open>previousControl &&\<close>
  always passes; \<^verbatim>\<open>previousName\<close> is truthy when it is a non-empty string.
\<close>

definition useEffect_body ::
  "methods \<Rightarrow> world \<Rightarrow> refs \<Rightarrow> props \<Rightarrow> bool \<Rightarrow> world \<times> refs \<times> cleanup_env" where
  "useEffect_body M w r p isArr =
     (let c = p_control p;
          n = p_name p;
          shouldUnregisterField =
            js_or (options_shouldUnregister (controls w c)) (p_shouldUnregister p);
          previousName = previousNameRef r;
          previousControl = previousControlRef r;
          isControlChanged = (previousControl \<noteq> c);
          isNameChanged = (previousName \<noteq> Some n);
          w1 = (case previousName of
                  None \<Rightarrow> w
                | Some pn \<Rightarrow>
                    if isControlChanged \<and> pn \<noteq> [] \<and> \<not> isArr
                    then call_unregister M w previousControl pn else w);
          w2 = (case previousName of
                  None \<Rightarrow> w1
                | Some pn \<Rightarrow>
                    if \<not> isControlChanged \<and> pn \<noteq> [] \<and> isNameChanged \<and> \<not> isArr
                    then call_unregister M w1 c pn else w1);
          w3 = (if isNameChanged \<or> isControlChanged
                then call_register M w2 c n (effectRegisterOptions (propsRef r))
                else w2);
          w4 = call_updateMounted w3 c n True;
          w5 = call_seedDefaults shouldUnregisterField w4 c n (p_defaultValue (propsRef r));
          w6 = (if \<not> isArr then call_register M w5 c n noRegisterOptions else w5)
      in (w6,
          r\<lparr>previousNameRef := Some n, previousControlRef := c\<rparr>,
          \<lparr>cl_name = n, cl_control = c, cl_isArrayField = isArr,
           cl_shouldUnregisterField = shouldUnregisterField\<rparr>))"

text \<open>The cleanup function, lines 238-246, run in the world of the detach.\<close>

definition cleanup :: "methods \<Rightarrow> world \<Rightarrow> cleanup_env \<Rightarrow> world" where
  "cleanup M w cl =
     (if (if cl_isArrayField cl
          then truthy (cl_shouldUnregisterField cl)
               \<and> \<not> state_action (controls w (cl_control cl))
          else truthy (cl_shouldUnregisterField cl))
      then call_unregister M w (cl_control cl) (cl_name cl)
      else call_updateMounted w (cl_control cl) (cl_name cl) False)"

subsection \<open>The disabled effect, lines 249-254\<close>

definition disabled_effect :: "methods \<Rightarrow> world \<Rightarrow> props \<Rightarrow> world" where
  "disabled_effect M w p = call_setDisabledField M w (p_control p) (p_name p) (p_disabled p)"

subsection \<open>The first render\<close>

text \<open>
  The first render of the hook and the first run of the effect after it: line 64
  computes \<^verbatim>\<open>isArrayField\<close> before the \<^verbatim>\<open>register\<close> call of line 90, and the
  refs have their initial values.
\<close>

definition mount :: "methods \<Rightarrow> world \<Rightarrow> props \<Rightarrow> world \<times> refs \<times> cleanup_env" where
  "mount M w p =
     useEffect_body M (render_register M w p) (initial_refs p) p (isArrayField M w p)"

subsection \<open>A change of the dependencies\<close>

text \<open>
  When a dependency of line 247 (\<^verbatim>\<open>name\<close>, \<^verbatim>\<open>control\<close>, \<^verbatim>\<open>isArrayField\<close>,
  \<^verbatim>\<open>shouldUnregister\<close>) has changed at a render, React runs the cleanup function the
  previous run of the effect returned, and then the body of the effect again.
\<close>

definition rerender_effect ::
  "methods \<Rightarrow> world \<Rightarrow> refs \<Rightarrow> cleanup_env \<Rightarrow> props \<Rightarrow> bool \<Rightarrow> world \<times> refs \<times> cleanup_env" where
  "rerender_effect M w r cl p isArr = useEffect_body M (cleanup M w cl) r p isArr"

section \<open>A reference implementation of the methods\<close>

text \<open>
  Modelled from the spec: \<^verbatim>\<open>control.register\<close>, \<^verbatim>\<open>control.unregister\<close>,
  \<^verbatim>\<open>control._setDisabledField\<close>, \<^verbatim>\<open>isNameInFieldArray\<close> and \<^verbatim>\<open>useWatch\<close> are
  not part of the sources. The spec, 4.2: \<^verbatim>\<open>register(path, options)\<close>, if no
  FieldNode exists at the path, creates one, seeds \<^verbatim>\<open>current[path]\<close> with (existing
  current value, else existing default value, else \<^verbatim>\<open>options.value\<close>) and applies
  \<^verbatim>\<open>options.disabled\<close> if explicitly boolean; if a node already exists, it merges the
  new rule set over the old one and leaves the value untouched. 4.3: a full
  unregistration deletes the node, deletes the value and default entries and clears
  the status sets for the path. 4.6: \<^verbatim>\<open>setDisabledField\<close> writes the disabled flag of
  the node if \<^verbatim>\<open>disabled\<close> is an explicit boolean and is a no-op otherwise. 3: a path
  is array-managed when it is a member of the set of array field names. 6:
  \<^verbatim>\<open>watch\<close> returns the current value (the default where there is none).
\<close>

definition merge_rules :: "rules \<Rightarrow> rules \<Rightarrow> rules" where
  "merge_rules new old = new @ filter (\<lambda>kv. fst kv \<notin> fst ` set new) old"

definition spec_register :: "control \<Rightarrow> path \<Rightarrow> register_options \<Rightarrow> control" where
  "spec_register c n opts =
     (case (case get (field_refs c) n None of None \<Rightarrow> None | Some field \<Rightarrow> fld_f field) of
        Some ff \<Rightarrow>
          c\<lparr>field_refs := (field_refs c)
               (n \<mapsto> \<lparr>fld_f = Some (ff\<lparr>f_rules := merge_rules (ro_rules opts) (f_rules ff)\<rparr>)\<rparr>)\<rparr>
      | None \<Rightarrow>
          c\<lparr>field_refs := (field_refs c)
               (n \<mapsto> \<lparr>fld_f = Some \<lparr>f_name = n, f_mount = None, f_ref = None,
                     f_disabled = (case ro_disabled opts of Some (JBool b) \<Rightarrow> Some b | _ \<Rightarrow> None),
                     f_rules = ro_rules opts\<rparr>\<rparr>),
            formValues := set_js (formValues c) n
               (get (formValues c) n (get (defaultValues c) n (ro_value opts)))\<rparr>)"

definition clear_status :: "form_state \<Rightarrow> path \<Rightarrow> form_state" where
  "clear_status fs n =
     fs\<lparr>fs_errors := (fs_errors fs)(n := None),
        fs_dirtyFields := (fs_dirtyFields fs)(n := None),
        fs_touchedFields := (fs_touchedFields fs)(n := None),
        fs_validatingFields := (fs_validatingFields fs)(n := None)\<rparr>"

definition spec_unregister :: "control \<Rightarrow> path \<Rightarrow> control" where
  "spec_unregister c n =
     c\<lparr>field_refs := (field_refs c)(n := None),
       formValues := (formValues c)(n := None),
       defaultValues := (defaultValues c)(n := None),
       formState := clear_status (formState c) n\<rparr>"

definition spec_setDisabledField :: "control \<Rightarrow> path \<Rightarrow> jsval option \<Rightarrow> control" where
  "spec_setDisabledField c n d =
     (case d of
        Some (JBool b) \<Rightarrow>
          (case get (field_refs c) n None of
             None \<Rightarrow> c
           | Some field \<Rightarrow>
               (case fld_f field of
                  None \<Rightarrow> c
                | Some ff \<Rightarrow>
                    c\<lparr>field_refs := (field_refs c)
                         (n \<mapsto> field\<lparr>fld_f := Some (ff\<lparr>f_disabled := Some b\<rparr>)\<rparr>)\<rparr>))
      | _ \<Rightarrow> c)"

definition spec_isNameInFieldArray :: "path set \<Rightarrow> path \<Rightarrow> bool" where
  "spec_isNameInFieldArray names n = (n \<in> names)"

definition spec_useWatch :: "control \<Rightarrow> path \<Rightarrow> jsval option \<Rightarrow> jsval option" where
  "spec_useWatch c n defaultValue = get (formValues c) n defaultValue"

definition spec_methods :: methods where
  "spec_methods =
     \<lparr>register = spec_register, unregister = spec_unregister,
      setDisabledField = spec_setDisabledField,
      isNameInFieldArray = spec_isNameInFieldArray, useWatch = spec_useWatch\<rparr>"

section \<open>Concrete controls and props\<close>

definition empty_form_state :: form_state where
  "empty_form_state =
     \<lparr>fs_errors = Map.empty, fs_dirtyFields = Map.empty, fs_touchedFields = Map.empty,
      fs_validatingFields = Map.empty, fs_disabled = Some (JBool False)\<rparr>"

definition empty_control :: control where
  "empty_control =
     \<lparr>names_array = {}, field_refs = Map.empty, formValues = Map.empty,
      defaultValues = Map.empty, options_shouldUnregister = None,
      options_defaultValues = Map.empty, state_action = False,
      formState = empty_form_state\<rparr>"

definition input_element :: element where
  "input_element = \<lparr>elm_id = 1, elm_has_focus = True, elm_has_select = True\<rparr>"

definition mounted_field :: "path \<Rightarrow> field_node" where
  "mounted_field n =
     \<lparr>fld_f = Some \<lparr>f_name = n, f_mount = Some True, f_ref = None, f_disabled = None,
                    f_rules = []\<rparr>\<rparr>"

definition props_of :: "path \<Rightarrow> props" where
  "props_of n =
     \<lparr>p_name = n, p_disabled = None, p_control = 0, p_shouldUnregister = None,
      p_defaultValue = None, p_rules = []\<rparr>"

definition world_of :: "control \<Rightarrow> world" where
  "world_of c = \<lparr>controls = (\<lambda>_. c), calls = []\<rparr>"

definition plain_control :: control where
  "plain_control =
     empty_control\<lparr>field_refs := [''f'' \<mapsto> mounted_field ''f''],
       formValues := [''f'' \<mapsto> JStr ''x'']\<rparr>"

definition form_unregisters :: control where
  "form_unregisters = plain_control\<lparr>options_shouldUnregister := Some (JBool True)\<rparr>"

definition explicit_false_props :: props where
  "explicit_false_props = (props_of ''f'')\<lparr>p_shouldUnregister := Some (JBool False)\<rparr>"

definition bound_field :: field_node where
  "bound_field =
     \<lparr>fld_f = Some \<lparr>f_name = ''f'', f_mount = Some True,
                    f_ref = Some (Handle input_element), f_disabled = None, f_rules = []\<rparr>\<rparr>"

definition bound_control :: control where
  "bound_control = empty_control\<lparr>field_refs := [''f'' \<mapsto> bound_field]\<rparr>"

definition container_control :: control where
  "container_control = empty_control\<lparr>field_refs := [''a'' \<mapsto> \<lparr>fld_f = None\<rparr>]\<rparr>"

definition rows_control :: control where
  "rows_control =
     empty_control\<lparr>names_array := {''rows'', ''rows.0'', ''rows.1''},
       field_refs := [''rows.0'' \<mapsto> mounted_field ''rows.0''],
       formValues := [''rows.0'' \<mapsto> JStr ''x''],
       options_shouldUnregister := Some (JBool True),
       state_action := True\<rparr>"

definition renamed_refs :: "path \<Rightarrow> path \<Rightarrow> refs" where
  "renamed_refs old new =
     \<lparr>previousNameRef = Some old, previousControlRef = 0, propsRef = props_of new\<rparr>"

definition closure_of :: "path \<Rightarrow> bool \<Rightarrow> cleanup_env" where
  "closure_of n isArr =
     \<lparr>cl_name = n, cl_control = 0, cl_isArrayField = isArr, cl_shouldUnregisterField = None\<rparr>"





definition opt_control :: control where
  "opt_control =
     empty_control\<lparr>options_shouldUnregister := Some (JBool True),
       options_defaultValues := [''f'' \<mapsto> JStr ''opt'']\<rparr>"

section \<open>Facts about the operations\<close>

lemmas concrete_defs =
  plain_control_def props_of_def world_of_def empty_control_def empty_form_state_def
  mounted_field_def initial_refs_def input_element_def

lemmas hook_defs =
  cleanup_def call_register_def call_unregister_def
  call_updateMounted_def call_seedDefaults_def call_setDisabledField_def updateMounted_def
  seedDefaults_def effectRegisterOptions_def renderRegisterOptions_def noRegisterOptions_def
  render_value_def watchDefaultValue_def js_or_def get_def set_js_def isBoolean_def
  isUndefined_def cloneObject_def isArrayField_def

lemmas spec_defs =
  spec_methods_def spec_register_def spec_unregister_def spec_setDisabledField_def
  spec_isNameInFieldArray_def spec_useWatch_def merge_rules_def clear_status_def

lemma useEffect_body_closure:
  "snd (snd (useEffect_body M w r p isArr)) =
     \<lparr>cl_name = p_name p, cl_control = p_control p, cl_isArrayField = isArr,
      cl_shouldUnregisterField =
        js_or (options_shouldUnregister (controls w (p_control p))) (p_shouldUnregister p)\<rparr>"
  by (simp add: useEffect_body_def Let_def)

lemma truthy_js_or: "truthy (js_or a b) = (truthy a \<or> truthy b)"
  by (simp add: js_or_def)

lemma calls_call_updateMounted: "calls (call_updateMounted w c n v) = calls w"
  by (simp add: call_updateMounted_def)

lemma calls_call_seedDefaults: "calls (call_seedDefaults flag w c n d) = calls w"
  by (simp add: call_seedDefaults_def)

lemma calls_call_register:
  "calls (call_register M w c n opts) = calls w @ [(c, CRegister n opts)]"
  by (simp add: call_register_def)

lemma calls_call_unregister:
  "calls (call_unregister M w c n) = calls w @ [(c, CUnregister n)]"
  by (simp add: call_unregister_def)

text \<open>\<^verbatim>\<open>updateMounted\<close> writes the mount flag of one node and nothing else.\<close>

lemma updateMounted_values:
  "formValues (updateMounted c n v) = formValues c"
  "defaultValues (updateMounted c n v) = defaultValues c"
  by (simp_all add: updateMounted_def get_def split: option.splits)

lemma updateMounted_other:
  "m \<noteq> n \<Longrightarrow> field_refs (updateMounted c n v) m = field_refs c m"
  by (simp add: updateMounted_def get_def split: option.splits)

lemma updateMounted_node:
  "field_refs c n = Some field \<Longrightarrow> fld_f field = Some ff \<Longrightarrow>
   field_refs (updateMounted c n v) n = Some (field\<lparr>fld_f := Some (ff\<lparr>f_mount := Some v\<rparr>)\<rparr>)"
  by (simp add: updateMounted_def get_def)

lemma seedDefaults_falsy: "\<not> truthy flag \<Longrightarrow> seedDefaults flag c n d = c"
  by (simp add: seedDefaults_def)

text \<open>
  The ref callback changes nothing and does not throw when there is nothing at the
  path, or when the element is \<^verbatim>\<open>null\<close>.
\<close>

lemma ref_noop:
  "field_refs c n = None \<or> elm = None \<Longrightarrow> ref c n elm = Inr c"
  by (auto simp: ref_def get_def split: option.splits)

text \<open>The body of the effect for an array-managed path: it never calls \<^verbatim>\<open>unregister\<close>.\<close>

lemma useEffect_body_array:
  "fst (useEffect_body M w r p True) =
     call_seedDefaults
       (js_or (options_shouldUnregister (controls w (p_control p))) (p_shouldUnregister p))
       (call_updateMounted
          (if previousNameRef r \<noteq> Some (p_name p) \<or> previousControlRef r \<noteq> p_control p
           then call_register M w (p_control p) (p_name p) (effectRegisterOptions (propsRef r))
           else w)
          (p_control p) (p_name p) True)
       (p_control p) (p_name p) (p_defaultValue (propsRef r))"
  by (simp add: useEffect_body_def Let_def split: option.splits)

text \<open>The first render and the first run of the effect, step by step.\<close>

lemma mount_world:
  "fst (mount M w p) =
     (let w5 = call_seedDefaults
                 (js_or (options_shouldUnregister (controls (render_register M w p) (p_control p)))
                    (p_shouldUnregister p))
                 (call_updateMounted
                    (call_register M (render_register M w p) (p_control p) (p_name p)
                       (effectRegisterOptions p))
                    (p_control p) (p_name p) True)
                 (p_control p) (p_name p) (p_defaultValue p)
      in if isArrayField M w p then w5
         else call_register M w5 (p_control p) (p_name p) noRegisterOptions)"
  by (simp add: mount_def useEffect_body_def initial_refs_def Let_def)

text \<open>What lines 223-231 write.\<close>

lemma seedDefaults_writes:
  "seedDefaults flag c n d =
     (if truthy flag
      then c\<lparr>defaultValues := (defaultValues c)
                (n := case options_defaultValues c n of Some v \<Rightarrow> Some v | None \<Rightarrow> d),
             formValues :=
               (case formValues c n of
                  Some v \<Rightarrow> formValues c
                | None \<Rightarrow> (formValues c)
                    (n := case options_defaultValues c n of Some v \<Rightarrow> Some v | None \<Rightarrow> d))\<rparr>
      else c)"
  by (simp add: seedDefaults_def Let_def get_def set_js_def isUndefined_def cloneObject_def
      split: option.splits)

text \<open>The calls of the cleanup function.\<close>

lemma calls_cleanup:
  "calls (cleanup M w cl) =
     calls w @
       (if (if cl_isArrayField cl
            then truthy (cl_shouldUnregisterField cl)
                 \<and> \<not> state_action (controls w (cl_control cl))
            else truthy (cl_shouldUnregisterField cl))
        then [(cl_control cl, CUnregister (cl_name cl))] else [])"
  by (simp add: cleanup_def calls_call_unregister calls_call_updateMounted)

text \<open>The body of the effect after a change, for a path that is not array-managed.\<close>

lemma useEffect_body_changed:
  assumes "previousNameRef r = Some pn" and "pn \<noteq> []"
    and "pn \<noteq> p_name p \<or> previousControlRef r \<noteq> p_control p"
  shows "fst (useEffect_body M w r p False) =
           call_register M
             (call_seedDefaults
                (js_or (options_shouldUnregister (controls w (p_control p))) (p_shouldUnregister p))
                (call_updateMounted
                   (call_register M (call_unregister M w (previousControlRef r) pn)
                      (p_control p) (p_name p) (effectRegisterOptions (propsRef r)))
                   (p_control p) (p_name p) True)
                (p_control p) (p_name p) (p_defaultValue (propsRef r)))
             (p_control p) (p_name p) noRegisterOptions"
  using assms by (auto simp: useEffect_body_def Let_def)

text \<open>
  A run of the effect leaves the refs and the cleanup function it returns in step:
  the previous name and control of the next run are those of the cleanup.
\<close>

lemma useEffect_body_refs:
  "previousNameRef (fst (snd (useEffect_body M w r p isArr))) =
     Some (cl_name (snd (snd (useEffect_body M w r p isArr))))
   \<and> previousControlRef (fst (snd (useEffect_body M w r p isArr))) =
     cl_control (snd (snd (useEffect_body M w r p isArr)))"
  by (simp add: useEffect_body_def Let_def)

text \<open>
  The first registration of a path with the reference methods: the value of the field
  after the first render and the first run of the effect.
\<close>

lemma spec_methods_sel:
  "register spec_methods = spec_register"
  "unregister spec_methods = spec_unregister"
  "setDisabledField spec_methods = spec_setDisabledField"
  "isNameInFieldArray spec_methods = spec_isNameInFieldArray"
  "useWatch spec_methods = spec_useWatch"
  by (simp_all add: spec_methods_def)

lemma spec_register_new:
  "field_refs c n = None \<Longrightarrow>
   formValues (spec_register c n opts) =
     (formValues c)(n := case formValues c n of Some v \<Rightarrow> Some v
        | None \<Rightarrow> (case defaultValues c n of Some v \<Rightarrow> Some v | None \<Rightarrow> ro_value opts))
   \<and> defaultValues (spec_register c n opts) = defaultValues c
   \<and> options_defaultValues (spec_register c n opts) = options_defaultValues c
   \<and> options_shouldUnregister (spec_register c n opts) = options_shouldUnregister c
   \<and> (\<exists>ff. field_refs (spec_register c n opts) n = Some \<lparr>fld_f = Some ff\<rparr>)"
  by (simp add: spec_register_def get_def set_js_def split: option.splits)

lemma spec_register_old:
  "field_refs c n = Some \<lparr>fld_f = Some ff\<rparr> \<Longrightarrow>
   formValues (spec_register c n opts) = formValues c
   \<and> defaultValues (spec_register c n opts) = defaultValues c
   \<and> options_defaultValues (spec_register c n opts) = options_defaultValues c
   \<and> options_shouldUnregister (spec_register c n opts) = options_shouldUnregister c
   \<and> (\<exists>ff'. field_refs (spec_register c n opts) n = Some \<lparr>fld_f = Some ff'\<rparr>)"
  by (simp add: spec_register_def get_def)

lemma updateMounted_node_kept:
  "field_refs c n = Some \<lparr>fld_f = Some ff\<rparr> \<Longrightarrow>
   \<exists>ff'. field_refs (updateMounted c n v) n = Some \<lparr>fld_f = Some ff'\<rparr>"
  by (simp add: updateMounted_def get_def)

lemma seedDefaults_frame:
  "field_refs (seedDefaults flag c n d) = field_refs c"
  by (simp add: seedDefaults_def Let_def)

lemma mount_spec_value:
  assumes "field_refs (controls w (p_control p)) (p_name p) = None"
  shows "formValues (controls (fst (mount spec_methods w p)) (p_control p)) (p_name p) =
     (case watchDefaultValue (controls w (p_control p)) (p_name p) (p_defaultValue p) of
        Some v \<Rightarrow> Some v
      | None \<Rightarrow>
          if truthy (js_or (options_shouldUnregister (controls w (p_control p)))
                       (p_shouldUnregister p))
          then options_defaultValues (controls w (p_control p)) (p_name p)
          else None)"
proof -
  let ?c = "controls w (p_control p)" and ?n = "p_name p"
  let ?seed = "watchDefaultValue ?c ?n (p_defaultValue p)"
  let ?c1 = "spec_register ?c ?n (renderRegisterOptions p (render_value spec_methods w p))"
  have rv: "render_value spec_methods w p = ?seed"
    by (simp add: render_value_def spec_methods_sel spec_useWatch_def watchDefaultValue_def
        get_def Let_def split: option.splits)
  have c1: "controls (render_register spec_methods w p) (p_control p) = ?c1"
    by (simp add: render_register_def call_register_def spec_methods_sel)
  from spec_register_new [OF assms, of "renderRegisterOptions p (render_value spec_methods w p)"]
  obtain ff where fv1: "formValues ?c1 ?n = ?seed"
    and dv1: "options_defaultValues ?c1 = options_defaultValues ?c"
    and su1: "options_shouldUnregister ?c1 = options_shouldUnregister ?c"
    and node1: "field_refs ?c1 ?n = Some \<lparr>fld_f = Some ff\<rparr>"
    by (auto simp: rv renderRegisterOptions_def watchDefaultValue_def get_def
        split: option.splits)
  let ?c2 = "spec_register ?c1 ?n (effectRegisterOptions p)"
  from spec_register_old [OF node1, of "effectRegisterOptions p"]
  obtain ff2 where fv2: "formValues ?c2 = formValues ?c1"
    and dv2: "options_defaultValues ?c2 = options_defaultValues ?c1"
    and node2: "field_refs ?c2 ?n = Some \<lparr>fld_f = Some ff2\<rparr>"
    by auto
  let ?c3 = "updateMounted ?c2 ?n True"
  from updateMounted_node_kept [OF node2, of True]
  obtain ff3 where node3: "field_refs ?c3 ?n = Some \<lparr>fld_f = Some ff3\<rparr>"
    by auto
  have fv3: "formValues ?c3 = formValues ?c2" and dv3: "options_defaultValues ?c3 = options_defaultValues ?c2"
    by (simp_all add: updateMounted_def get_def node2)
  let ?flag = "js_or (options_shouldUnregister ?c) (p_shouldUnregister p)"
  let ?c4 = "seedDefaults ?flag ?c3 ?n (p_defaultValue p)"
  have node4: "field_refs ?c4 ?n = Some \<lparr>fld_f = Some ff3\<rparr>"
    by (simp add: seedDefaults_frame node3)
  have fv4: "formValues ?c4 ?n =
      (case ?seed of Some v \<Rightarrow> Some v
       | None \<Rightarrow> if truthy ?flag then (case options_defaultValues ?c ?n of Some v \<Rightarrow> Some v
            | None \<Rightarrow> p_defaultValue p) else None)"
    by (simp add: seedDefaults_writes fv3 fv2 fv1 dv3 dv2 dv1 split: option.splits)
  have dnone: "?seed = None \<Longrightarrow> p_defaultValue p = None"
    by (simp add: watchDefaultValue_def get_def split: option.splits)
  have fv4': "formValues ?c4 ?n =
      (case ?seed of Some v \<Rightarrow> Some v
       | None \<Rightarrow> if truthy ?flag then options_defaultValues ?c ?n else None)"
    using fv4 dnone by (auto split: option.splits)
  have fv5: "formValues (spec_register ?c4 ?n noRegisterOptions) = formValues ?c4"
    using spec_register_old [OF node4, of noRegisterOptions] by simp
  have world: "controls (fst (mount spec_methods w p)) (p_control p) =
      (if isArrayField spec_methods w p then ?c4 else spec_register ?c4 ?n noRegisterOptions)"
    by (simp add: mount_world Let_def call_register_def call_seedDefaults_def
        call_updateMounted_def c1 su1 spec_methods_sel)
  show ?thesis
    by (simp add: world fv5 fv4')
qed

section \<open>The claims\<close>

text \<open>
  C1. The claim: a per-field \<^verbatim>\<open>shouldUnregister\<close> that is explicitly set takes
  precedence over the form-level flag, so that an explicit \<^verbatim>\<open>false\<close> prevents the
  unregistration when the form-level flag is \<^verbatim>\<open>true\<close>. The code resolves the flag as
  \<^verbatim>\<open>control._options.shouldUnregister || shouldUnregister\<close> (line 187). As amended:
  when the consumer of a path that is not array-managed detaches, the cleanup calls
  \<^verbatim>\<open>unregister\<close> if the form-level flag or the per-field prop is truthy, and only
  sets the mount flag to \<^verbatim>\<open>false\<close> otherwise; the per-field prop decides only when
  the form-level flag is not truthy.
\<close>

theorem detach_resolves_by_or:
  "cleanup M w (snd (snd (useEffect_body M w0 r p False))) =
     (if truthy (options_shouldUnregister (controls w0 (p_control p)))
         \<or> truthy (p_shouldUnregister p)
      then call_unregister M w (p_control p) (p_name p)
      else call_updateMounted w (p_control p) (p_name p) False)"
  by (simp add: useEffect_body_closure cleanup_def truthy_js_or)

theorem detach_resolves_by_or_witness:
  "cleanup spec_methods (world_of form_unregisters)
     (snd (snd (useEffect_body spec_methods (world_of form_unregisters)
        (initial_refs explicit_false_props) explicit_false_props False))) =
   call_unregister spec_methods (world_of form_unregisters) 0 ''f''
 \<and> cleanup spec_methods (world_of plain_control)
     (snd (snd (useEffect_body spec_methods (world_of plain_control)
        (initial_refs explicit_false_props) explicit_false_props False))) =
   call_updateMounted (world_of plain_control) 0 ''f'' False"
  using detach_resolves_by_or [of spec_methods "world_of form_unregisters"
          "world_of form_unregisters" "initial_refs explicit_false_props" explicit_false_props]
        detach_resolves_by_or [of spec_methods "world_of plain_control"
          "world_of plain_control" "initial_refs explicit_false_props" explicit_false_props]
  by (simp add: concrete_defs form_unregisters_def explicit_false_props_def)

text \<open>
  The form-level flag is \<^verbatim>\<open>true\<close> and the per-field prop is an explicit
  \<^verbatim>\<open>false\<close>: the cleanup calls \<^verbatim>\<open>unregister\<close>, and the node is gone.
\<close>

theorem explicit_false_still_unregisters:
  "p_shouldUnregister explicit_false_props = Some (JBool False)
   \<and> options_shouldUnregister form_unregisters = Some (JBool True)
   \<and> calls (cleanup spec_methods (world_of form_unregisters)
        (snd (snd (useEffect_body spec_methods (world_of form_unregisters)
           (initial_refs explicit_false_props) explicit_false_props False)))) =
       [(0, CUnregister ''f'')]
   \<and> field_refs (controls (cleanup spec_methods (world_of form_unregisters)
        (snd (snd (useEffect_body spec_methods (world_of form_unregisters)
           (initial_refs explicit_false_props) explicit_false_props False)))) 0) ''f'' = None"
  by (simp add: useEffect_body_closure concrete_defs form_unregisters_def
      explicit_false_props_def hook_defs spec_defs)

text \<open>
  C2. For an array-managed path (\<^verbatim>\<open>isNameInFieldArray(control._names.array, name)\<close>
  holds at the render), if an array mutation is in progress (\<^verbatim>\<open>control._state.action\<close>)
  when the consumer detaches, the cleanup is \<^verbatim>\<open>updateMounted(name, false)\<close>: it calls
  no method of the control, and the mount flag of the node is \<^verbatim>\<open>false\<close> afterwards,
  whatever the resolved flag (the props and the world of the effect are arbitrary).
\<close>

theorem array_action_detach:
  assumes "isNameInFieldArray M (names_array (controls w0 (p_control p))) (p_name p)"
    and "state_action (controls w (p_control p))"
  shows "cleanup M w (snd (snd (useEffect_body M w1 r p (isArrayField M w0 p)))) =
           call_updateMounted w (p_control p) (p_name p) False
       \<and> calls (cleanup M w (snd (snd (useEffect_body M w1 r p (isArrayField M w0 p))))) = calls w
       \<and> (\<forall>field ff. field_refs (controls w (p_control p)) (p_name p) = Some field
             \<and> fld_f field = Some ff \<longrightarrow>
           field_refs (controls (cleanup M w (snd (snd (useEffect_body M w1 r p
               (isArrayField M w0 p))))) (p_control p)) (p_name p) =
             Some (field\<lparr>fld_f := Some (ff\<lparr>f_mount := Some False\<rparr>)\<rparr>))"
  using assms
  by (simp add: useEffect_body_closure cleanup_def isArrayField_def calls_call_updateMounted)
     (simp add: call_updateMounted_def updateMounted_node)

theorem array_action_detach_witness:
  "isNameInFieldArray spec_methods (names_array rows_control) ''rows.0''
   \<and> state_action rows_control
   \<and> truthy (cl_shouldUnregisterField (snd (snd (useEffect_body spec_methods
        (world_of rows_control) (initial_refs (props_of ''rows.0'')) (props_of ''rows.0'') True))))
   \<and> calls (cleanup spec_methods (world_of rows_control)
        (snd (snd (useEffect_body spec_methods (world_of rows_control)
           (initial_refs (props_of ''rows.0'')) (props_of ''rows.0'') True)))) = []
   \<and> field_refs (controls (cleanup spec_methods (world_of rows_control)
        (snd (snd (useEffect_body spec_methods (world_of rows_control)
           (initial_refs (props_of ''rows.0'')) (props_of ''rows.0'') True)))) 0) ''rows.0'' =
       Some \<lparr>fld_f = Some \<lparr>f_name = ''rows.0'', f_mount = Some False, f_ref = None,
                            f_disabled = None, f_rules = []\<rparr>\<rparr>"
proof -
  have arr: "isNameInFieldArray spec_methods
      (names_array (controls (world_of rows_control) (p_control (props_of ''rows.0''))))
      (p_name (props_of ''rows.0''))"
    by (simp add: concrete_defs rows_control_def spec_defs)
  have act: "state_action (controls (world_of rows_control) (p_control (props_of ''rows.0'')))"
    by (simp add: concrete_defs rows_control_def)
  have isArr: "isArrayField spec_methods (world_of rows_control) (props_of ''rows.0'') = True"
    using arr by (simp add: isArrayField_def)
  show ?thesis
    using array_action_detach [OF arr act, of "world_of rows_control"
        "initial_refs (props_of ''rows.0'')"] arr act
    by (simp add: isArr useEffect_body_closure concrete_defs rows_control_def hook_defs
        spec_defs)
qed

text \<open>
  C3. The claim: the initial value of a field registered through the hook is seeded
  in the order current value, default value, \<^verbatim>\<open>defaultValue\<close> prop. That is the
  order of the value the hook hands to \<^verbatim>\<open>register\<close> (lines 70-79 and 92), but under
  a truthy resolved flag lines 223-231 seed from \<^verbatim>\<open>control._options.defaultValues\<close>.
  As amended: the \<^verbatim>\<open>value\<close> option of the \<^verbatim>\<open>register\<close> call of a render is what
  \<^verbatim>\<open>useWatch\<close> returns for the default taken in the order
  \<^verbatim>\<open>control._formValues\<close> at the path if present, else
  \<^verbatim>\<open>control._defaultValues\<close> at the path if present, else the \<^verbatim>\<open>defaultValue\<close>
  prop. The first run of the effect then registers, sets the mount flag and, when the
  resolved flag is truthy, sets \<^verbatim>\<open>control._defaultValues\<close> at the path to
  \<^verbatim>\<open>control._options.defaultValues\<close> at the path if present, else the prop, and
  seeds \<^verbatim>\<open>control._formValues\<close> at the path with that same value if it is still
  undefined; when the flag is falsy it writes neither tree. With \<^verbatim>\<open>register\<close> and
  \<^verbatim>\<open>useWatch\<close> as the spec describes them, a field registered for the first time
  so starts with the value of the claimed order and, when that is undefined and the
  flag is truthy, with \<^verbatim>\<open>control._options.defaultValues\<close> at the path.
\<close>

theorem seed_order:
  "watchDefaultValue c n d =
     (case formValues c n of
        Some v \<Rightarrow> Some v
      | None \<Rightarrow> (case defaultValues c n of Some v \<Rightarrow> Some v | None \<Rightarrow> d))
   \<and> render_register M w p =
       call_register M w (p_control p) (p_name p)
         \<lparr>ro_rules = p_rules p,
          ro_value = useWatch M (controls w (p_control p)) (p_name p)
            (watchDefaultValue (controls w (p_control p)) (p_name p) (p_defaultValue p)),
          ro_disabled = (if isBoolean (p_disabled p) then p_disabled p else None)\<rparr>
   \<and> fst (mount M w p) =
       (let w5 = call_seedDefaults
                   (js_or (options_shouldUnregister (controls (render_register M w p) (p_control p)))
                      (p_shouldUnregister p))
                   (call_updateMounted
                      (call_register M (render_register M w p) (p_control p) (p_name p)
                         (effectRegisterOptions p))
                      (p_control p) (p_name p) True)
                   (p_control p) (p_name p) (p_defaultValue p)
        in if isArrayField M w p then w5
           else call_register M w5 (p_control p) (p_name p) noRegisterOptions)
   \<and> seedDefaults flag c n d =
       (if truthy flag
        then c\<lparr>defaultValues := (defaultValues c)
                  (n := case options_defaultValues c n of Some v \<Rightarrow> Some v | None \<Rightarrow> d),
               formValues :=
                 (case formValues c n of
                    Some v \<Rightarrow> formValues c
                  | None \<Rightarrow> (formValues c)
                      (n := case options_defaultValues c n of Some v \<Rightarrow> Some v | None \<Rightarrow> d))\<rparr>
        else c)
   \<and> (field_refs (controls w (p_control p)) (p_name p) = None \<longrightarrow>
        formValues (controls (fst (mount spec_methods w p)) (p_control p)) (p_name p) =
          (case watchDefaultValue (controls w (p_control p)) (p_name p) (p_defaultValue p) of
             Some v \<Rightarrow> Some v
           | None \<Rightarrow>
               if truthy (js_or (options_shouldUnregister (controls w (p_control p)))
                            (p_shouldUnregister p))
               then options_defaultValues (controls w (p_control p)) (p_name p)
               else None))"
proof -
  have order: "watchDefaultValue c n d =
     (case formValues c n of
        Some v \<Rightarrow> Some v
      | None \<Rightarrow> (case defaultValues c n of Some v \<Rightarrow> Some v | None \<Rightarrow> d))"
    by (simp add: watchDefaultValue_def get_def split: option.splits)
  have render: "render_register M w p =
       call_register M w (p_control p) (p_name p)
         \<lparr>ro_rules = p_rules p,
          ro_value = useWatch M (controls w (p_control p)) (p_name p)
            (watchDefaultValue (controls w (p_control p)) (p_name p) (p_defaultValue p)),
          ro_disabled = (if isBoolean (p_disabled p) then p_disabled p else None)\<rparr>"
    by (simp add: render_register_def render_value_def renderRegisterOptions_def Let_def)
  show ?thesis
    using order render mount_world [of M w p] seedDefaults_writes [of flag c n d]
      mount_spec_value [of w p]
    by blast
qed

theorem seed_order_witness:
  "watchDefaultValue (plain_control\<lparr>defaultValues := [''f'' \<mapsto> JStr ''def'']\<rparr>) ''f''
     (Some (JStr ''prop'')) = Some (JStr ''x'')
   \<and> watchDefaultValue (empty_control\<lparr>defaultValues := [''f'' \<mapsto> JStr ''def'']\<rparr>) ''f''
     (Some (JStr ''prop'')) = Some (JStr ''def'')
   \<and> watchDefaultValue empty_control ''f'' (Some (JStr ''prop'')) = Some (JStr ''prop'')
   \<and> formValues (controls (fst (mount spec_methods (world_of empty_control)
        ((props_of ''f'')\<lparr>p_defaultValue := Some (JStr ''prop'')\<rparr>))) 0) ''f'' =
       Some (JStr ''prop'')
   \<and> seedDefaults (Some (JBool True)) opt_control ''f'' None =
       opt_control\<lparr>defaultValues := [''f'' \<mapsto> JStr ''opt''],
                   formValues := [''f'' \<mapsto> JStr ''opt'']\<rparr>"
proof -
  note t = seed_order [of empty_control "''f''" "Some (JStr ''prop'')" spec_methods
      "world_of empty_control" "(props_of ''f'')\<lparr>p_defaultValue := Some (JStr ''prop'')\<rparr>"]
  have e: "fst (mount spec_methods (world_of empty_control)
        ((props_of ''f'')\<lparr>p_defaultValue := Some (JStr ''prop'')\<rparr>)) =
      (let w5 = call_seedDefaults
                  (js_or (options_shouldUnregister (controls (render_register spec_methods
                      (world_of empty_control)
                      ((props_of ''f'')\<lparr>p_defaultValue := Some (JStr ''prop'')\<rparr>))
                      (p_control ((props_of ''f'')\<lparr>p_defaultValue := Some (JStr ''prop'')\<rparr>))))
                     (p_shouldUnregister ((props_of ''f'')\<lparr>p_defaultValue := Some (JStr ''prop'')\<rparr>)))
                  (call_updateMounted
                     (call_register spec_methods
                        (render_register spec_methods (world_of empty_control)
                           ((props_of ''f'')\<lparr>p_defaultValue := Some (JStr ''prop'')\<rparr>))
                        (p_control ((props_of ''f'')\<lparr>p_defaultValue := Some (JStr ''prop'')\<rparr>))
                        (p_name ((props_of ''f'')\<lparr>p_defaultValue := Some (JStr ''prop'')\<rparr>))
                        (effectRegisterOptions
                           ((props_of ''f'')\<lparr>p_defaultValue := Some (JStr ''prop'')\<rparr>)))
                     (p_control ((props_of ''f'')\<lparr>p_defaultValue := Some (JStr ''prop'')\<rparr>))
                     (p_name ((props_of ''f'')\<lparr>p_defaultValue := Some (JStr ''prop'')\<rparr>)) True)
                  (p_control ((props_of ''f'')\<lparr>p_defaultValue := Some (JStr ''prop'')\<rparr>))
                  (p_name ((props_of ''f'')\<lparr>p_defaultValue := Some (JStr ''prop'')\<rparr>))
                  (p_defaultValue ((props_of ''f'')\<lparr>p_defaultValue := Some (JStr ''prop'')\<rparr>))
       in if isArrayField spec_methods (world_of empty_control)
               ((props_of ''f'')\<lparr>p_defaultValue := Some (JStr ''prop'')\<rparr>)
          then w5
          else call_register spec_methods w5
                 (p_control ((props_of ''f'')\<lparr>p_defaultValue := Some (JStr ''prop'')\<rparr>))
                 (p_name ((props_of ''f'')\<lparr>p_defaultValue := Some (JStr ''prop'')\<rparr>))
                 noRegisterOptions)"
    using t by blast
  have m: "formValues (controls (fst (mount spec_methods (world_of empty_control)
        ((props_of ''f'')\<lparr>p_defaultValue := Some (JStr ''prop'')\<rparr>))) 0) ''f'' =
       Some (JStr ''prop'')"
    by (simp only: e) (simp add: render_register_def concrete_defs hook_defs spec_defs Let_def)
  show ?thesis
    using m seed_order [of "plain_control\<lparr>defaultValues := [''f'' \<mapsto> JStr ''def'']\<rparr>" "''f''"
          "Some (JStr ''prop'')" spec_methods "world_of empty_control" "props_of ''f''"
          "Some (JBool True)"]
      seed_order [of "empty_control\<lparr>defaultValues := [''f'' \<mapsto> JStr ''def'']\<rparr>" "''f''"
          "Some (JStr ''prop'')"]
      seed_order [of opt_control "''f''" None spec_methods "world_of empty_control"
          "props_of ''f''" "Some (JBool True)"]
      t
    by (simp add: plain_control_def empty_control_def opt_control_def)
qed

text \<open>
  Nothing is at the path in \<^verbatim>\<open>control._formValues\<close> and in
  \<^verbatim>\<open>control._defaultValues\<close> and the prop is \<^verbatim>\<open>undefined\<close>, the form-level flag
  is \<^verbatim>\<open>true\<close> and \<^verbatim>\<open>control._options.defaultValues\<close> holds \<^verbatim>\<open>opt\<close> at the path:
  after the first render and effect the value of the field is \<^verbatim>\<open>opt\<close>.
\<close>

theorem seed_from_options_defaults:
  "formValues opt_control ''f'' = None
   \<and> defaultValues opt_control ''f'' = None
   \<and> p_defaultValue (props_of ''f'') = None
   \<and> formValues (controls (fst (mount spec_methods (world_of opt_control) (props_of ''f''))) 0)
       ''f'' = Some (JStr ''opt'')"
  by (simp add: mount_world render_register_def concrete_defs opt_control_def hook_defs
      spec_defs Let_def)

text \<open>
  C4. For a path that is not array-managed and whose resolved flag is falsy, the
  cleanup is \<^verbatim>\<open>updateMounted(name, false)\<close>: it calls no method of the control, it
  leaves the current and the default values of every control as they were and every
  other node as it was, and the node of the path differs by its mount flag only,
  which is \<^verbatim>\<open>false\<close>. So the value a later render of the same path seeds the field
  with is the value from before the detach, and under a falsy flag the effect writes
  no default (lines 223-231 are skipped).
\<close>

theorem plain_detach_keeps_value:
  assumes "\<not> cl_isArrayField cl" and "\<not> truthy (cl_shouldUnregisterField cl)"
  shows "cleanup M w cl = call_updateMounted w (cl_control cl) (cl_name cl) False
       \<and> calls (cleanup M w cl) = calls w
       \<and> formValues (controls (cleanup M w cl) k) = formValues (controls w k)
       \<and> defaultValues (controls (cleanup M w cl) k) = defaultValues (controls w k)
       \<and> (\<forall>m. (k, m) \<noteq> (cl_control cl, cl_name cl) \<longrightarrow>
             field_refs (controls (cleanup M w cl) k) m = field_refs (controls w k) m)
       \<and> (\<forall>field ff. field_refs (controls w (cl_control cl)) (cl_name cl) = Some field
             \<and> fld_f field = Some ff \<longrightarrow>
           field_refs (controls (cleanup M w cl) (cl_control cl)) (cl_name cl) =
             Some (field\<lparr>fld_f := Some (ff\<lparr>f_mount := Some False\<rparr>)\<rparr>))
       \<and> watchDefaultValue (controls (cleanup M w cl) k) n d =
           watchDefaultValue (controls w k) n d
       \<and> (\<forall>p v. p_name p = cl_name cl \<and> p_control p = cl_control cl
             \<and> formValues (controls w (cl_control cl)) (cl_name cl) = Some v \<longrightarrow>
             render_value M (cleanup M w cl) p =
               useWatch M (controls (cleanup M w cl) (cl_control cl)) (cl_name cl) (Some v))
       \<and> seedDefaults (cl_shouldUnregisterField cl) c n d = c"
proof -
  have eq: "cleanup M w cl = call_updateMounted w (cl_control cl) (cl_name cl) False"
    using assms by (simp add: cleanup_def)
  have fv: "formValues (controls (cleanup M w cl) k) = formValues (controls w k)" for k
    by (simp add: eq call_updateMounted_def updateMounted_values)
  have dv: "defaultValues (controls (cleanup M w cl) k) = defaultValues (controls w k)"
    by (simp add: eq call_updateMounted_def updateMounted_values)
  have other: "\<forall>m. (k, m) \<noteq> (cl_control cl, cl_name cl) \<longrightarrow>
      field_refs (controls (cleanup M w cl) k) m = field_refs (controls w k) m"
    by (auto simp: eq call_updateMounted_def updateMounted_other)
  have node: "\<forall>field ff. field_refs (controls w (cl_control cl)) (cl_name cl) = Some field
        \<and> fld_f field = Some ff \<longrightarrow>
      field_refs (controls (cleanup M w cl) (cl_control cl)) (cl_name cl) =
        Some (field\<lparr>fld_f := Some (ff\<lparr>f_mount := Some False\<rparr>)\<rparr>)"
    by (simp add: eq call_updateMounted_def updateMounted_node)
  have seed: "watchDefaultValue (controls (cleanup M w cl) k) n d =
      watchDefaultValue (controls w k) n d"
    by (simp add: watchDefaultValue_def fv dv)
  have rv: "\<forall>p v. p_name p = cl_name cl \<and> p_control p = cl_control cl
        \<and> formValues (controls w (cl_control cl)) (cl_name cl) = Some v \<longrightarrow>
      render_value M (cleanup M w cl) p =
        useWatch M (controls (cleanup M w cl) (cl_control cl)) (cl_name cl) (Some v)"
    by (simp add: render_value_def watchDefaultValue_def get_def fv)
  show ?thesis
    using eq fv dv other node seed rv assms(2)
    by (simp add: calls_call_updateMounted seedDefaults_falsy)
qed

theorem plain_detach_keeps_value_witness:
  "\<not> cl_isArrayField (closure_of ''f'' False)
   \<and> \<not> truthy (cl_shouldUnregisterField (closure_of ''f'' False))
   \<and> calls (cleanup spec_methods (world_of plain_control) (closure_of ''f'' False)) = []
   \<and> formValues (controls (cleanup spec_methods (world_of plain_control)
        (closure_of ''f'' False)) 0) ''f'' = Some (JStr ''x'')
   \<and> field_refs (controls (cleanup spec_methods (world_of plain_control)
        (closure_of ''f'' False)) 0) ''f'' =
       Some \<lparr>fld_f = Some \<lparr>f_name = ''f'', f_mount = Some False, f_ref = None,
                            f_disabled = None, f_rules = []\<rparr>\<rparr>
   \<and> render_value spec_methods (cleanup spec_methods (world_of plain_control)
        (closure_of ''f'' False)) (props_of ''f'') = Some (JStr ''x'')"
proof -
  have a: "\<not> cl_isArrayField (closure_of ''f'' False)"
    by (simp add: closure_of_def)
  have b: "\<not> truthy (cl_shouldUnregisterField (closure_of ''f'' False))"
    by (simp add: closure_of_def)
  show ?thesis
    using plain_detach_keeps_value [OF a b, of spec_methods "world_of plain_control" 0] a b
    by (simp add: concrete_defs closure_of_def hook_defs spec_defs)
qed

text \<open>
  C5. The claim: the capability handle is bound to the node when an element attaches
  through the ref callback, and detached when the callback is invoked with
  \<^verbatim>\<open>null\<close>. The callback writes only under \<^verbatim>\<open>field && elm\<close> (line 157). As
  amended: when the path holds a field node, the callback invoked with an element
  binds the handle of that element to the node and changes nothing else; invoked with
  \<^verbatim>\<open>null\<close> it changes nothing, so the handle bound before stays on the node.
\<close>

theorem ref_binds_and_null_is_noop:
  "(field_refs c n = Some field \<and> fld_f field = Some ff \<longrightarrow>
      ref c n (Some e) =
        Inr (c\<lparr>field_refs := (field_refs c)
               (n \<mapsto> field\<lparr>fld_f := Some (ff\<lparr>f_ref := Some (Handle e)\<rparr>)\<rparr>)\<rparr>))
   \<and> ref c n None = Inr c"
  by (simp add: ref_def get_def split: option.splits)

theorem ref_binds_and_null_is_noop_witness:
  "ref (empty_control\<lparr>field_refs := [''f'' \<mapsto> mounted_field ''f'']\<rparr>) ''f''
      (Some input_element) = Inr bound_control
   \<and> ref bound_control ''f'' None = Inr bound_control"
  using ref_binds_and_null_is_noop [of "empty_control\<lparr>field_refs := [''f'' \<mapsto> mounted_field ''f'']\<rparr>"
      "''f''" "mounted_field ''f''"
      "\<lparr>f_name = ''f'', f_mount = Some True, f_ref = None, f_disabled = None, f_rules = []\<rparr>"
      input_element]
    ref_binds_and_null_is_noop [of bound_control "''f''"]
  by (simp add: concrete_defs bound_control_def bound_field_def)

text \<open>
  The node holds the handle of an element; the callback invoked with \<^verbatim>\<open>null\<close>
  returns the control as it was, with the handle still on the node.
\<close>

theorem null_ref_keeps_handle:
  "ref bound_control ''f'' None = Inr bound_control
   \<and> field_refs bound_control ''f'' =
       Some \<lparr>fld_f = Some \<lparr>f_name = ''f'', f_mount = Some True,
                            f_ref = Some (Handle input_element), f_disabled = None,
                            f_rules = []\<rparr>\<rparr>"
  by (simp add: ref_def get_def concrete_defs bound_control_def bound_field_def)

text \<open>
  C6. The claim: at every change of the name or of the control the hook unregisters
  the previous path and registers the new one. Lines 194 and 199 unregister only when
  \<^verbatim>\<open>isArrayField\<close> is false (and the previous name is a non-empty string). As
  amended, for the cleanup of the previous effect followed by the body of the new one:
  when the name or the control has changed, the previous name is a non-empty string
  and the new path is not array-managed, the body is exactly
  \<^verbatim>\<open>unregister(previousName)\<close> on the previous control, then
  \<^verbatim>\<open>register(name, ...)\<close> on the current one, then the mount flag, the defaults of
  lines 223-231 and \<^verbatim>\<open>register(name)\<close>, all at the new path: no step moves state
  from the old path. When the new path is array-managed the body registers it and
  calls no \<^verbatim>\<open>unregister\<close>; the previous path is then unregistered by the cleanup
  only, that is when the resolved flag of the previous effect is truthy and, the
  previous path being array-managed, no array mutation is in progress.
\<close>

theorem rename_is_unregister_then_register:
  assumes "previousNameRef r = Some (cl_name cl)"
    and "previousControlRef r = cl_control cl"
    and "cl_name cl \<noteq> []"
    and "cl_name cl \<noteq> p_name p \<or> cl_control cl \<noteq> p_control p"
  shows "fst (rerender_effect M w r cl p False) =
           call_register M
             (call_seedDefaults
                (js_or (options_shouldUnregister (controls (cleanup M w cl) (p_control p)))
                   (p_shouldUnregister p))
                (call_updateMounted
                   (call_register M
                      (call_unregister M (cleanup M w cl) (cl_control cl) (cl_name cl))
                      (p_control p) (p_name p) (effectRegisterOptions (propsRef r)))
                   (p_control p) (p_name p) True)
                (p_control p) (p_name p) (p_defaultValue (propsRef r)))
             (p_control p) (p_name p) noRegisterOptions
       \<and> calls (fst (rerender_effect M w r cl p False)) =
           calls (cleanup M w cl) @
             [(cl_control cl, CUnregister (cl_name cl)),
              (p_control p, CRegister (p_name p) (effectRegisterOptions (propsRef r))),
              (p_control p, CRegister (p_name p) noRegisterOptions)]
       \<and> fst (rerender_effect M w r cl p True) =
           call_seedDefaults
             (js_or (options_shouldUnregister (controls (cleanup M w cl) (p_control p)))
                (p_shouldUnregister p))
             (call_updateMounted
                (call_register M (cleanup M w cl) (p_control p) (p_name p)
                   (effectRegisterOptions (propsRef r)))
                (p_control p) (p_name p) True)
             (p_control p) (p_name p) (p_defaultValue (propsRef r))
       \<and> calls (fst (rerender_effect M w r cl p True)) =
           calls (cleanup M w cl) @
             [(p_control p, CRegister (p_name p) (effectRegisterOptions (propsRef r)))]
       \<and> calls (cleanup M w cl) =
           calls w @
             (if (if cl_isArrayField cl
                  then truthy (cl_shouldUnregisterField cl)
                       \<and> \<not> state_action (controls w (cl_control cl))
                  else truthy (cl_shouldUnregisterField cl))
              then [(cl_control cl, CUnregister (cl_name cl))] else [])"
proof -
  have changed: "cl_name cl \<noteq> p_name p \<or> previousControlRef r \<noteq> p_control p"
    using assms(2,4) by simp
  have plain: "fst (rerender_effect M w r cl p False) =
           call_register M
             (call_seedDefaults
                (js_or (options_shouldUnregister (controls (cleanup M w cl) (p_control p)))
                   (p_shouldUnregister p))
                (call_updateMounted
                   (call_register M
                      (call_unregister M (cleanup M w cl) (cl_control cl) (cl_name cl))
                      (p_control p) (p_name p) (effectRegisterOptions (propsRef r)))
                   (p_control p) (p_name p) True)
                (p_control p) (p_name p) (p_defaultValue (propsRef r)))
             (p_control p) (p_name p) noRegisterOptions"
    using useEffect_body_changed [OF assms(1) assms(3) changed, of M "cleanup M w cl"] assms(2)
    by (simp add: rerender_effect_def)
  have array: "fst (rerender_effect M w r cl p True) =
           call_seedDefaults
             (js_or (options_shouldUnregister (controls (cleanup M w cl) (p_control p)))
                (p_shouldUnregister p))
             (call_updateMounted
                (call_register M (cleanup M w cl) (p_control p) (p_name p)
                   (effectRegisterOptions (propsRef r)))
                (p_control p) (p_name p) True)
             (p_control p) (p_name p) (p_defaultValue (propsRef r))"
    using assms(1) changed by (auto simp: rerender_effect_def useEffect_body_array)
  show ?thesis
    by (simp add: plain array calls_cleanup calls_call_register calls_call_seedDefaults
        calls_call_updateMounted calls_call_unregister)
qed

theorem rename_is_unregister_then_register_witness:
  "previousNameRef (renamed_refs ''f'' ''g'') = Some (cl_name (closure_of ''f'' False))
   \<and> calls (fst (rerender_effect spec_methods (world_of plain_control)
        (renamed_refs ''f'' ''g'') (closure_of ''f'' False) (props_of ''g'') False)) =
       [(0, CUnregister ''f''),
        (0, CRegister ''g'' (effectRegisterOptions (props_of ''g''))),
        (0, CRegister ''g'' noRegisterOptions)]
   \<and> formValues plain_control ''f'' = Some (JStr ''x'')
   \<and> formValues (controls (fst (rerender_effect spec_methods (world_of plain_control)
        (renamed_refs ''f'' ''g'') (closure_of ''f'' False) (props_of ''g'') False)) 0) ''f'' = None
   \<and> formValues (controls (fst (rerender_effect spec_methods (world_of plain_control)
        (renamed_refs ''f'' ''g'') (closure_of ''f'' False) (props_of ''g'') False)) 0) ''g'' = None
   \<and> calls (fst (rerender_effect spec_methods (world_of (rows_control\<lparr>state_action := False\<rparr>))
        (renamed_refs ''rows.0'' ''rows.1'')
        ((closure_of ''rows.0'' True)\<lparr>cl_shouldUnregisterField := Some (JBool True)\<rparr>)
        (props_of ''rows.1'') True)) =
       [(0, CUnregister ''rows.0''),
        (0, CRegister ''rows.1'' (effectRegisterOptions (props_of ''rows.1'')))]"
proof -
  have a: "previousNameRef (renamed_refs ''f'' ''g'') = Some (cl_name (closure_of ''f'' False))"
    by (simp add: renamed_refs_def closure_of_def)
  have b: "previousControlRef (renamed_refs ''f'' ''g'') = cl_control (closure_of ''f'' False)"
    by (simp add: renamed_refs_def closure_of_def)
  have c: "cl_name (closure_of ''f'' False) \<noteq> []"
    by (simp add: closure_of_def)
  have d: "cl_name (closure_of ''f'' False) \<noteq> p_name (props_of ''g'')
      \<or> cl_control (closure_of ''f'' False) \<noteq> p_control (props_of ''g'')"
    by (simp add: closure_of_def props_of_def)
  note t = rename_is_unregister_then_register [OF a b c d, of spec_methods
      "world_of plain_control"]
  have calls_plain: "calls (fst (rerender_effect spec_methods (world_of plain_control)
        (renamed_refs ''f'' ''g'') (closure_of ''f'' False) (props_of ''g'') False)) =
       [(0, CUnregister ''f''),
        (0, CRegister ''g'' (effectRegisterOptions (props_of ''g''))),
        (0, CRegister ''g'' noRegisterOptions)]"
    using t [THEN conjunct2, THEN conjunct1]
      t [THEN conjunct2, THEN conjunct2, THEN conjunct2, THEN conjunct2]
    by (simp add: closure_of_def renamed_refs_def props_of_def world_of_def)
  have e: "fst (rerender_effect spec_methods (world_of plain_control)
        (renamed_refs ''f'' ''g'') (closure_of ''f'' False) (props_of ''g'') False) =
      call_register spec_methods
        (call_seedDefaults
           (js_or (options_shouldUnregister (controls (cleanup spec_methods
                (world_of plain_control) (closure_of ''f'' False)) (p_control (props_of ''g''))))
              (p_shouldUnregister (props_of ''g'')))
           (call_updateMounted
              (call_register spec_methods
                 (call_unregister spec_methods
                    (cleanup spec_methods (world_of plain_control) (closure_of ''f'' False))
                    (cl_control (closure_of ''f'' False)) (cl_name (closure_of ''f'' False)))
                 (p_control (props_of ''g'')) (p_name (props_of ''g''))
                 (effectRegisterOptions (propsRef (renamed_refs ''f'' ''g''))))
              (p_control (props_of ''g'')) (p_name (props_of ''g'')) True)
           (p_control (props_of ''g'')) (p_name (props_of ''g''))
           (p_defaultValue (propsRef (renamed_refs ''f'' ''g''))))
        (p_control (props_of ''g'')) (p_name (props_of ''g'')) noRegisterOptions"
    using t by (rule conjunct1)
  have kept: "formValues plain_control ''f'' = Some (JStr ''x'')
      \<and> formValues (controls (fst (rerender_effect spec_methods (world_of plain_control)
           (renamed_refs ''f'' ''g'') (closure_of ''f'' False) (props_of ''g'') False)) 0) ''f'' = None
      \<and> formValues (controls (fst (rerender_effect spec_methods (world_of plain_control)
           (renamed_refs ''f'' ''g'') (closure_of ''f'' False) (props_of ''g'') False)) 0) ''g'' = None"
    by (simp only: e)
       (simp add: concrete_defs renamed_refs_def closure_of_def hook_defs spec_defs)
  have a': "previousNameRef (renamed_refs ''rows.0'' ''rows.1'') =
      Some (cl_name ((closure_of ''rows.0'' True)\<lparr>cl_shouldUnregisterField := Some (JBool True)\<rparr>))"
    by (simp add: renamed_refs_def closure_of_def)
  have b': "previousControlRef (renamed_refs ''rows.0'' ''rows.1'') =
      cl_control ((closure_of ''rows.0'' True)\<lparr>cl_shouldUnregisterField := Some (JBool True)\<rparr>)"
    by (simp add: renamed_refs_def closure_of_def)
  have c': "cl_name ((closure_of ''rows.0'' True)\<lparr>cl_shouldUnregisterField := Some (JBool True)\<rparr>)
      \<noteq> []"
    by (simp add: closure_of_def)
  have d': "cl_name ((closure_of ''rows.0'' True)\<lparr>cl_shouldUnregisterField := Some (JBool True)\<rparr>)
        \<noteq> p_name (props_of ''rows.1'')
      \<or> cl_control ((closure_of ''rows.0'' True)\<lparr>cl_shouldUnregisterField := Some (JBool True)\<rparr>)
        \<noteq> p_control (props_of ''rows.1'')"
    by (simp add: closure_of_def props_of_def)
  note t' = rename_is_unregister_then_register [OF a' b' c' d', of spec_methods
      "world_of (rows_control\<lparr>state_action := False\<rparr>)"]
  have calls_rows: "calls (fst (rerender_effect spec_methods
        (world_of (rows_control\<lparr>state_action := False\<rparr>))
        (renamed_refs ''rows.0'' ''rows.1'')
        ((closure_of ''rows.0'' True)\<lparr>cl_shouldUnregisterField := Some (JBool True)\<rparr>)
        (props_of ''rows.1'') True)) =
       [(0, CUnregister ''rows.0''),
        (0, CRegister ''rows.1'' (effectRegisterOptions (props_of ''rows.1'')))]"
    using t' [THEN conjunct2, THEN conjunct2, THEN conjunct2, THEN conjunct1]
      t' [THEN conjunct2, THEN conjunct2, THEN conjunct2, THEN conjunct2]
    by (simp add: closure_of_def renamed_refs_def props_of_def world_of_def rows_control_def
        empty_control_def)
  show ?thesis
    using a calls_plain kept calls_rows by simp
qed

text \<open>
  An array-managed path is renamed from \<^verbatim>\<open>rows.0\<close> to \<^verbatim>\<open>rows.1\<close> under a falsy
  resolved flag: the cleanup of the old path and the body of the effect together make
  one call, a \<^verbatim>\<open>register\<close> of the new path, and no \<^verbatim>\<open>unregister\<close>.
\<close>

theorem array_rename_no_unregister:
  "isArrayField spec_methods (world_of rows_control) (props_of ''rows.1'')
   \<and> calls (fst (rerender_effect spec_methods (world_of rows_control)
        (renamed_refs ''rows.0'' ''rows.1'') (closure_of ''rows.0'' True) (props_of ''rows.1'')
        (isArrayField spec_methods (world_of rows_control) (props_of ''rows.1'')))) =
       [(0, CRegister ''rows.1'' (effectRegisterOptions (props_of ''rows.1'')))]"
  by (simp add: useEffect_body_array rerender_effect_def concrete_defs rows_control_def
      renamed_refs_def closure_of_def hook_defs spec_defs)

text \<open>
  C7. The options of both \<^verbatim>\<open>register\<close> calls of the hook (lines 90-94 and
  205-210) carry the key \<^verbatim>\<open>disabled\<close>, with the value of the prop, exactly when the
  prop is an explicit boolean; with any other value the options are those of a hook
  whose \<^verbatim>\<open>disabled\<close> is \<^verbatim>\<open>undefined\<close>, so an explicit \<^verbatim>\<open>false\<close> and an
  unspecified prop give different options. The effect of lines 249-254 hands the prop
  to \<^verbatim>\<open>control._setDisabledField\<close> as it is; with that method as the spec describes
  it (4.6), a value that is not a boolean leaves every control unchanged.
\<close>

theorem disabled_only_when_boolean:
  "(isBoolean (p_disabled p) \<longrightarrow>
      ro_disabled (renderRegisterOptions p v) = p_disabled p
      \<and> ro_disabled (effectRegisterOptions p) = p_disabled p)
   \<and> (\<not> isBoolean (p_disabled p) \<longrightarrow>
      renderRegisterOptions p v = renderRegisterOptions (p\<lparr>p_disabled := None\<rparr>) v
      \<and> effectRegisterOptions p = effectRegisterOptions (p\<lparr>p_disabled := None\<rparr>)
      \<and> ro_disabled (renderRegisterOptions p v) = None
      \<and> ro_disabled (effectRegisterOptions p) = None
      \<and> controls (disabled_effect spec_methods w p) = controls w)
   \<and> calls (disabled_effect M w p) =
       calls w @ [(p_control p, CSetDisabledField (p_name p) (p_disabled p))]
   \<and> renderRegisterOptions (p\<lparr>p_disabled := Some (JBool False)\<rparr>) v \<noteq>
       renderRegisterOptions (p\<lparr>p_disabled := None\<rparr>) v"
proof -
  have noop: "\<not> isBoolean (p_disabled p) \<Longrightarrow>
      spec_setDisabledField (controls w (p_control p)) (p_name p) (p_disabled p) =
      controls w (p_control p)"
    by (simp add: spec_setDisabledField_def isBoolean_def split: option.splits jsval.splits)
  show ?thesis
    using noop
    by (simp add: renderRegisterOptions_def effectRegisterOptions_def isBoolean_def
        disabled_effect_def call_setDisabledField_def spec_methods_def)
qed

theorem disabled_only_when_boolean_witness:
  "isBoolean (p_disabled ((props_of ''f'')\<lparr>p_disabled := Some (JBool False)\<rparr>))
   \<and> ro_disabled (renderRegisterOptions ((props_of ''f'')\<lparr>p_disabled := Some (JBool False)\<rparr>)
        None) = Some (JBool False)
   \<and> renderRegisterOptions ((props_of ''f'')\<lparr>p_disabled := Some (JStr ''yes'')\<rparr>) None =
       renderRegisterOptions (props_of ''f'') None
   \<and> controls (disabled_effect spec_methods (world_of bound_control)
        ((props_of ''f'')\<lparr>p_disabled := Some (JStr ''yes'')\<rparr>)) =
       controls (world_of bound_control)"
  using disabled_only_when_boolean [of "(props_of ''f'')\<lparr>p_disabled := Some (JBool False)\<rparr>" None]
    disabled_only_when_boolean [of "(props_of ''f'')\<lparr>p_disabled := Some (JStr ''yes'')\<rparr>" None
      "world_of bound_control"]
  by (simp add: props_of_def isBoolean_def)




text \<open>
  C9. The claim: the ref callback invoked for a path that has no registered field
  node, or with a \<^verbatim>\<open>null\<close> element, is a no-op that never throws. The path
  \<^verbatim>\<open>a\<close> holds an object without \<^verbatim>\<open>_f\<close> (no field node is registered there) and
  the element is not \<^verbatim>\<open>null\<close>: the guard \<^verbatim>\<open>field && elm\<close> of line 157 passes and
  the assignment to \<^verbatim>\<open>field._f.ref\<close> throws a TypeError, where
  \<^verbatim>\<open>updateMounted\<close>, which tests \<^verbatim>\<open>field && field._f\<close> (line 216), leaves the
  control as it is.
\<close>

theorem ref_throws_on_node_without_f:
  "field_refs container_control ''a'' = Some \<lparr>fld_f = None\<rparr>
   \<and> ref container_control ''a'' (Some input_element) = Inl TypeError
   \<and> updateMounted container_control ''a'' True = container_control"
  by (simp add: ref_def updateMounted_def get_def concrete_defs container_control_def)

text \<open>
  C10. The field object has the key \<^verbatim>\<open>disabled\<close> exactly when the prop is an
  explicit boolean or \<^verbatim>\<open>formState.disabled\<close> is truthy; the value of the key is then
  \<^verbatim>\<open>formState.disabled || disabled\<close>. When \<^verbatim>\<open>formState.disabled\<close> is falsy, an
  explicit \<^verbatim>\<open>false\<close> gives the key with the value \<^verbatim>\<open>false\<close> and an unspecified
  prop gives no key.
\<close>

theorem field_disabled_key:
  "(fp_disabled (field_obj p fs v) \<noteq> None) =
     (isBoolean (p_disabled p) \<or> truthy (fs_disabled fs))
   \<and> (\<forall>x. fp_disabled (field_obj p fs v) = Some x \<longrightarrow>
         x = js_or (fs_disabled fs) (p_disabled p))
   \<and> (\<not> truthy (fs_disabled fs) \<longrightarrow>
         fp_disabled (field_obj (p\<lparr>p_disabled := Some (JBool False)\<rparr>) fs v) =
           Some (Some (JBool False))
         \<and> fp_disabled (field_obj (p\<lparr>p_disabled := None\<rparr>) fs v) = None)"
  by (simp add: field_obj_def isBoolean_def js_or_def)

theorem field_disabled_key_witness:
  "fp_disabled (field_obj ((props_of ''f'')\<lparr>p_disabled := Some (JBool False)\<rparr>)
      empty_form_state None) = Some (Some (JBool False))
   \<and> fp_disabled (field_obj (props_of ''f'') empty_form_state None) = None
   \<and> fp_disabled (field_obj (props_of ''f'')
       (empty_form_state\<lparr>fs_disabled := Some (JBool True)\<rparr>) None) = Some (Some (JBool True))"
  using field_disabled_key [of "props_of ''f''" empty_form_state None]
    field_disabled_key [of "props_of ''f''" "empty_form_state\<lparr>fs_disabled := Some (JBool True)\<rparr>" None]
  by (simp add: props_of_def empty_form_state_def field_obj_def isBoolean_def js_or_def)

end
